theory Spec2Isabelle
  imports Complex_Main
begin

section \<open>Text primitives of the JavaScript runtime\<close>

text \<open>
  Strings are \<open>string\<close> (lists of 8-bit characters); a character stands for the code unit
  of the same number, so the model covers strings whose code units are below 256.
  The double quote is \<open>CHR 0x22\<close>, the backslash \<open>CHR 0x5C\<close>, the line feed \<open>CHR 0x0A\<close>.

  The counters of the upstream API are integers, modelled as \<open>int\<close>: the text of a number
  with a fractional part is that of an IEEE double and is outside the model, as are
  integers of magnitude \<open>10^21\<close> and more (printed in exponent notation by Number.toString).
\<close>

datatype json = JNull | JBool bool | JNum int | JStr string
  | JArr "json list" | JObj "(string \<times> json) list"

definition digit :: "nat \<Rightarrow> char" where
  "digit d = ''0123456789'' ! d"

fun decimal :: "nat \<Rightarrow> string" where
  "decimal n = (if n < 10 then [digit n] else decimal (n div 10) @ [digit (n mod 10)])"

declare decimal.simps [simp del]

definition Number_toString :: "int \<Rightarrow> string" where
  \<comment> \<open>Number.prototype.toString on an integer-valued number: the decimal digits, with a minus sign\<close>
  "Number_toString n = (if n < 0 then ''-'' @ decimal (nat (- n)) else decimal (nat n))"

function group3 :: "string \<Rightarrow> string" where
  "group3 ds = (if length ds \<le> 3 then ds
     else group3 (take (length ds - 3) ds) @ '','' @ drop (length ds - 3) ds)"
  by pat_completeness auto
termination
  by (relation "measure length") auto

declare group3.simps [simp del]

definition toLocaleString :: "int \<Rightarrow> string" where
  \<comment> \<open>Number.prototype.toLocaleString() with no arguments on an integer-valued number, in the
      en-US locale of the runtime: the digits in groups of three separated by commas\<close>
  "toLocaleString n = (if n < 0 then ''-'' @ group3 (decimal (nat (- n))) else group3 (decimal (nat n)))"

definition hex_digit :: "nat \<Rightarrow> char" where
  "hex_digit d = ''0123456789abcdef'' ! d"

definition escape_char :: "char \<Rightarrow> string" where
  \<comment> \<open>one code unit inside QuoteJSONString\<close>
  "escape_char c =
     (if c = CHR 0x22 then [CHR 0x5C, CHR 0x22]
      else if c = CHR 0x5C then [CHR 0x5C, CHR 0x5C]
      else if c = CHR 0x08 then [CHR 0x5C, CHR ''b'']
      else if c = CHR 0x0C then [CHR 0x5C, CHR ''f'']
      else if c = CHR 0x0A then [CHR 0x5C, CHR ''n'']
      else if c = CHR 0x0D then [CHR 0x5C, CHR ''r'']
      else if c = CHR 0x09 then [CHR 0x5C, CHR ''t'']
      else if (of_char c :: nat) < 32
        then [CHR 0x5C, CHR ''u'', CHR ''0'', CHR ''0'',
              hex_digit (of_char c div 16), hex_digit (of_char c mod 16)]
      else [c])"

definition QuoteJSONString :: "string \<Rightarrow> string" where
  "QuoteJSONString s = [CHR 0x22] @ concat (map escape_char s) @ [CHR 0x22]"

fun join :: "string \<Rightarrow> string list \<Rightarrow> string" where
  "join sep [] = []"
| "join sep [x] = x"
| "join sep (x # y # ys) = x @ sep @ join sep (y # ys)"

definition indent :: "nat \<Rightarrow> string" where
  \<comment> \<open>a line feed and the indentation of nesting depth \<open>k\<close>, for a gap of two spaces\<close>
  "indent k = CHR 0x0A # replicate (2 * k) CHR '' ''"

fun stringify :: "nat \<Rightarrow> json \<Rightarrow> string" where
  \<comment> \<open>SerializeJSONProperty at nesting depth \<open>k\<close> with gap \<open>''  ''\<close>\<close>
  "stringify k JNull = ''null''"
| "stringify k (JBool b) = (if b then ''true'' else ''false'')"
| "stringify k (JNum n) = Number_toString n"
| "stringify k (JStr s) = QuoteJSONString s"
| "stringify k (JArr xs) =
     (if xs = [] then ''[]''
      else ''['' @ indent (Suc k)
        @ join ('','' @ indent (Suc k)) (map (stringify (Suc k)) xs)
        @ indent k @ '']'')"
| "stringify k (JObj ms) =
     (if ms = [] then ''{}''
      else ''{'' @ indent (Suc k)
        @ join ('','' @ indent (Suc k))
            (map (\<lambda>(key, v). QuoteJSONString key @ '': '' @ stringify (Suc k) v) ms)
        @ indent k @ ''}'')"

definition JSON_stringify :: "json \<Rightarrow> string" where
  \<comment> \<open>\<open>JSON.stringify(value, null, 2)\<close>\<close>
  "JSON_stringify v = stringify 0 v"


section \<open>Data model\<close>

text \<open>
  The interfaces of the source. A field of type \<open>T | null\<close> is an option; \<open>None\<close> stands
  for both \<open>null\<close> and \<open>undefined\<close>, which \<open>||\<close> and \<open>?.\<close> do not tell apart.
\<close>

record AuthorDetails =
  author_handle :: string
  name :: "string option"
  bio :: "string option"
  url_in_bio :: "string option"
  profile_image_url :: "string option"
  profile_banner_url :: "string option"
  followers_count :: "int option"
  followings_count :: "int option"
  account_created_at :: "string option"
  crypto_tweets_all :: "int option"
  crypto_tweets_views_all :: "int option"
  engagement_score :: "int option"
  followers_impact :: "int option"
  total_symbols_mentioned :: "int option"
  symbols_mentioned_in_last_24hr :: "int option"
  new_symbols_mentioned_in_last_24hr :: "int option"
  unique_author_handle_count :: "int option"
  total_mention_count :: "int option"
  tags :: "string list"
  mentions_24hr :: "int option"
  mindshare :: "int option"
  smart_followers_count :: "int option"

text \<open>
  \<open>run\<close> tests \<open>response.data\<close> and \<open>response.data.result\<close> for absence, so both are
  options here although the interface declares \<open>result\<close> without \<open>null\<close>.
\<close>

record CredBuzzResponse =
  result :: "AuthorDetails option"
  message :: string

text \<open>
  The interface \<open>Tweet\<close> declares its counters and \<open>symbols_mentioned\<close> without \<open>null\<close>,
  but \<open>run\<close> reads the counters through \<open>?.\<close> and the list through \<open>||\<close>: they are
  options here, so that the guarded branches of the code exist in the model.
\<close>

record Tweet =
  tweet_id :: string
  tweet_author_handle :: string
  content :: string
  created_at :: string
  view_count :: "int option"
  like_count :: "int option"
  reply_count :: "int option"
  retweet_count :: "int option"
  quote_count :: "int option"
  bookmark_count :: "int option"
  symbols_mentioned :: "string list option"

record TopTweetsResponse =
  tweets_result :: "Tweet list option"
  tweets_message :: string

record AuthorDetailsArgs =
  args_author_handle :: string

record TopTweetsArgs =
  targs_author_handle :: string
  interval :: string
  sort_by :: string
  limit :: rat


section \<open>The HTTP client\<close>

text \<open>
  What \<open>await axios.get(url)\<close> can do: resolve with a response whose \<open>data\<close> is the decoded
  body, or throw. A thrown value is an axios error (\<open>axios.isAxiosError\<close> holds) with its
  optional \<open>response\<close>, another instance of \<open>Error\<close> with its message, or a value that is
  not an \<open>Error\<close>.
\<close>

record http_response =
  status :: nat
  statusText :: string

datatype thrown = AxiosError "http_response option" string | JsError string | NonError

datatype 'd axios_outcome = Resolved "'d option" | Rejected thrown

text \<open>
  The transport below axios: the server answered with a status, a status text and a body,
  or no response was obtained (DNS failure, timeout, connection refused). axios resolves
  on a status in \<open>[200, 300)\<close> (its default \<open>validateStatus\<close>), rejects with an axios error
  carrying the response on any other status, and rejects with an axios error without a
  response when the request itself failed.
\<close>

datatype 'd transport = HttpResponse nat string "'d option" | NoResponse string

definition axios_get :: "'d transport \<Rightarrow> 'd axios_outcome" where
  "axios_get t = (case t of
      HttpResponse st txt body \<Rightarrow>
        (if 200 \<le> st \<and> st < 300 then Resolved body
         else Rejected (AxiosError (Some \<lparr>status = st, statusText = txt\<rparr>)
                 (''Request failed with status code '' @ decimal st)))
    | NoResponse msg \<Rightarrow> Rejected (AxiosError None msg))"


section \<open>JavaScript operators used by the handlers\<close>

definition or_string :: "string option \<Rightarrow> string \<Rightarrow> string" where
  \<comment> \<open>\<open>a || b\<close> for \<open>a : string | null | undefined\<close>: the empty string is falsy\<close>
  "or_string a b = (case a of None \<Rightarrow> b | Some s \<Rightarrow> if s = [] then b else s)"

definition or_number :: "int option \<Rightarrow> string \<Rightarrow> json" where
  \<comment> \<open>\<open>a || b\<close> for \<open>a : number | null | undefined\<close> and a string \<open>b\<close>: zero is falsy\<close>
  "or_number a b = (case a of None \<Rightarrow> JStr b | Some n \<Rightarrow> if n = 0 then JStr b else JNum n)"

definition opt_toLocaleString :: "int option \<Rightarrow> string option" where
  \<comment> \<open>\<open>a?.toLocaleString()\<close>\<close>
  "opt_toLocaleString a = map_option toLocaleString a"

definition or_list :: "string list option \<Rightarrow> string list \<Rightarrow> string list" where
  \<comment> \<open>\<open>a || b\<close> for \<open>a : string[] | null | undefined\<close>: every array is truthy\<close>
  "or_list a b = (case a of None \<Rightarrow> b | Some xs \<Rightarrow> xs)"

definition template_number :: "nat option \<Rightarrow> string" where
  \<comment> \<open>\<open>`${x}`\<close> for \<open>x : number | undefined\<close>\<close>
  "template_number x = (case x of None \<Rightarrow> ''undefined'' | Some n \<Rightarrow> decimal n)"

definition template_string :: "string option \<Rightarrow> string" where
  \<comment> \<open>\<open>`${x}`\<close> for \<open>x : string | undefined\<close>\<close>
  "template_string x = (case x of None \<Rightarrow> ''undefined'' | Some s \<Rightarrow> s)"


section \<open>getAuthorDetails\<close>

definition formattedDetails :: "AuthorDetails \<Rightarrow> json" where
  "formattedDetails author = JObj [
     (''handle'', JStr (author_handle author)),
     (''name'', JStr (or_string (name author) ''N/A'')),
     (''bio'', JStr (or_string (bio author) ''N/A'')),
     (''profileUrl'', JStr (or_string (url_in_bio author) ''N/A'')),
     (''followers'', JStr (or_string (opt_toLocaleString (followers_count author)) ''N/A'')),
     (''following'', JStr (or_string (opt_toLocaleString (followings_count author)) ''N/A'')),
     (''accountCreated'', JStr (or_string (account_created_at author) ''N/A'')),
     (''cryptoTweets'', JStr (or_string (opt_toLocaleString (crypto_tweets_all author)) ''N/A'')),
     (''cryptoTweetViews'',
        JStr (or_string (opt_toLocaleString (crypto_tweets_views_all author)) ''N/A'')),
     (''engagementScore'', or_number (engagement_score author) ''N/A''),
     (''followersImpact'', or_number (followers_impact author) ''N/A''),
     (''symbolsMentioned'', or_number (total_symbols_mentioned author) ''N/A''),
     (''symbolsLast24h'', or_number (symbols_mentioned_in_last_24hr author) ''N/A''),
     (''newSymbolsLast24h'', or_number (new_symbols_mentioned_in_last_24hr author) ''N/A''),
     (''mentions24h'', or_number (mentions_24hr author) ''N/A''),
     (''mindshare'', or_number (mindshare author) ''N/A''),
     (''smartFollowers'',
        JStr (or_string (opt_toLocaleString (smart_followers_count author)) ''N/A'')),
     (''tags'', JArr (map JStr (if length (tags author) > 0 then tags author else [''None''])))]"

definition getAuthorDetails_try ::
  "AuthorDetailsArgs \<Rightarrow> CredBuzzResponse axios_outcome \<Rightarrow> thrown + string" where
  \<comment> \<open>the \<open>try\<close> block: \<open>Inl\<close> is a value thrown inside it\<close>
  "getAuthorDetails_try args response = (case response of
      Rejected error \<Rightarrow> Inl error
    | Resolved None \<Rightarrow> Inr ''No author details found for the provided handle.''
    | Resolved (Some data) \<Rightarrow> (case result data of
          None \<Rightarrow> Inr ''No author details found for the provided handle.''
        | Some author \<Rightarrow> Inr (JSON_stringify (formattedDetails author))))"

definition getAuthorDetails_catch :: "thrown \<Rightarrow> thrown + string" where
  \<comment> \<open>the \<open>catch\<close> block\<close>
  "getAuthorDetails_catch error = (case error of
      AxiosError response msg \<Rightarrow>
        (if map_option status response = Some 404
           then Inr ''Author not found. Please check the handle and try again.''
         else if map_option status response = Some 429
           then Inr ''Rate limit exceeded. Please try again later.''
         else Inr (''API error: '' @ template_number (map_option status response)
                   @ '' - '' @ template_string (map_option statusText response)))
    | JsError msg \<Rightarrow> Inr (''Error fetching author details: '' @ msg)
    | NonError \<Rightarrow> Inr (''Error fetching author details: '' @ ''Unknown error''))"

definition getAuthorDetails_run ::
  "AuthorDetailsArgs \<Rightarrow> CredBuzzResponse axios_outcome \<Rightarrow> thrown + string" where
  \<comment> \<open>\<open>run\<close> of the capability, given what its one \<open>axios.get\<close> does;
      \<open>Inl\<close> is an exception that leaves \<open>run\<close>, \<open>Inr\<close> the string it returns\<close>
  "getAuthorDetails_run args response = (case getAuthorDetails_try args response of
      Inl error \<Rightarrow> getAuthorDetails_catch error
    | Inr s \<Rightarrow> Inr s)"


section \<open>getTopTweets\<close>

definition formatTweet :: "nat \<Rightarrow> Tweet \<Rightarrow> json" where
  \<comment> \<open>the callback of \<open>tweets.map\<close>\<close>
  "formatTweet index tweet = JObj [
     (''position'', JNum (int index + 1)),
     (''tweetId'', JStr (tweet_id tweet)),
     (''content'', JStr (content tweet)),
     (''createdAt'', JStr (created_at tweet)),
     (''metrics'', JObj [
        (''views'', JStr (or_string (opt_toLocaleString (view_count tweet)) ''N/A'')),
        (''likes'', JStr (or_string (opt_toLocaleString (like_count tweet)) ''N/A'')),
        (''replies'', JStr (or_string (opt_toLocaleString (reply_count tweet)) ''N/A'')),
        (''retweets'', JStr (or_string (opt_toLocaleString (retweet_count tweet)) ''N/A'')),
        (''quotes'', JStr (or_string (opt_toLocaleString (quote_count tweet)) ''N/A'')),
        (''bookmarks'', JStr (or_string (opt_toLocaleString (bookmark_count tweet)) ''N/A''))]),
     (''symbolsMentioned'', JArr (map JStr (or_list (symbols_mentioned tweet) [])))]"

definition formattedTweets :: "Tweet list \<Rightarrow> json list" where
  "formattedTweets tweets = map (\<lambda>(index, tweet). formatTweet index tweet) (enumerate 0 tweets)"

definition summary :: "TopTweetsArgs \<Rightarrow> Tweet list \<Rightarrow> json" where
  "summary args tweets = JObj [
     (''author'', JStr (targs_author_handle args)),
     (''totalTweets'', JNum (int (length tweets))),
     (''interval'', JStr (interval args)),
     (''sortedBy'', JStr (sort_by args)),
     (''tweets'', JArr (formattedTweets tweets))]"

definition getTopTweets_try ::
  "TopTweetsArgs \<Rightarrow> TopTweetsResponse axios_outcome \<Rightarrow> thrown + string" where
  "getTopTweets_try args response = (case response of
      Rejected error \<Rightarrow> Inl error
    | Resolved None \<Rightarrow> Inr ''No response received from the API.''
    | Resolved (Some data) \<Rightarrow> (case tweets_result data of
          None \<Rightarrow> Inr (''No tweets found for author '' @ [CHR 0x22] @ targs_author_handle args
                      @ [CHR 0x22] @ '' in the specified time period.'')
        | Some tweets \<Rightarrow>
            if length tweets = 0
            then Inr (''No tweets found for author '' @ [CHR 0x22] @ targs_author_handle args
                      @ [CHR 0x22] @ '' in the specified time period.'')
            else Inr (JSON_stringify (summary args tweets))))"

definition getTopTweets_catch :: "thrown \<Rightarrow> thrown + string" where
  "getTopTweets_catch error = (case error of
      AxiosError response msg \<Rightarrow>
        (if map_option status response = Some 404
           then Inr ''Author not found or no tweets available. Please check the handle and try again.''
         else if map_option status response = Some 429
           then Inr ''Rate limit exceeded. Please try again later.''
         else Inr (''API error: '' @ template_number (map_option status response)
                   @ '' - '' @ template_string (map_option statusText response)))
    | JsError msg \<Rightarrow> Inr (''Error fetching top tweets: '' @ msg)
    | NonError \<Rightarrow> Inr (''Error fetching top tweets: '' @ ''Unknown error''))"

definition getTopTweets_run ::
  "TopTweetsArgs \<Rightarrow> TopTweetsResponse axios_outcome \<Rightarrow> thrown + string" where
  "getTopTweets_run args response = (case getTopTweets_try args response of
      Inl error \<Rightarrow> getTopTweets_catch error
    | Inr s \<Rightarrow> Inr s)"


section \<open>Argument schemas\<close>

text \<open>
  The raw arguments of a call are an untyped JSON value; a number argument is modelled by
  its exact rational value. A schema maps the value found under a key (\<open>None\<close> when the
  key is absent) to an issue or to the validated value. The combinators follow the zod
  library: \<open>z.string()\<close> and \<open>z.number()\<close> accept exactly the inputs of that type,
  \<open>.min(a)\<close> and \<open>.max(b)\<close> bound a number inclusively, \<open>z.enum\<close> accepts the listed strings,
  and \<open>.default(d)\<close> replaces an absent input by \<open>d\<close> before the inner schema runs.
\<close>

datatype raw = RNull | RBool bool | RNum rat | RStr string
  | RArr "raw list" | RObj "(string \<times> raw) list"

datatype issue = invalid_type | too_small | too_big | invalid_enum_value

type_synonym 'a schema = "raw option \<Rightarrow> issue + 'a"

definition z_string :: "string schema" where
  "z_string v = (case v of Some (RStr s) \<Rightarrow> Inr s | _ \<Rightarrow> Inl invalid_type)"

definition z_number :: "rat schema" where
  "z_number v = (case v of Some (RNum x) \<Rightarrow> Inr x | _ \<Rightarrow> Inl invalid_type)"

definition z_min :: "rat \<Rightarrow> rat schema \<Rightarrow> rat schema" where
  "z_min a s v = (case s v of Inl e \<Rightarrow> Inl e | Inr x \<Rightarrow> if x < a then Inl too_small else Inr x)"

definition z_max :: "rat \<Rightarrow> rat schema \<Rightarrow> rat schema" where
  "z_max b s v = (case s v of Inl e \<Rightarrow> Inl e | Inr x \<Rightarrow> if b < x then Inl too_big else Inr x)"

definition z_enum :: "string list \<Rightarrow> string schema" where
  "z_enum options v = (case v of
      Some (RStr s) \<Rightarrow> if s \<in> set options then Inr s else Inl invalid_enum_value
    | _ \<Rightarrow> Inl invalid_type)"

definition z_default :: "raw \<Rightarrow> 'a schema \<Rightarrow> 'a schema" where
  "z_default d s v = (case v of None \<Rightarrow> s (Some d) | Some x \<Rightarrow> s (Some x))"

definition author_handle_schema :: "string schema" where
  "author_handle_schema = z_string"

definition interval_schema :: "string schema" where
  "interval_schema = z_default (RStr ''7day'') (z_enum [''1day'', ''7day'', ''30day''])"

definition sort_by_schema :: "string schema" where
  "sort_by_schema = z_default (RStr ''view_count_desc'')
     (z_enum [''view_count_desc'', ''like_count_desc'', ''reply_count_desc'',
              ''retweet_count_desc'', ''created_at_desc''])"

definition limit_schema :: "rat schema" where
  "limit_schema = z_default (RNum 5) (z_max 50 (z_min 1 z_number))"

definition field_issues :: "string \<Rightarrow> issue + 'a \<Rightarrow> (string \<times> issue) list" where
  "field_issues key r = (case r of Inl e \<Rightarrow> [(key, e)] | Inr _ \<Rightarrow> [])"

definition getAuthorDetails_schema :: "raw \<Rightarrow> (string \<times> issue) list + AuthorDetailsArgs" where
  \<comment> \<open>\<open>z.object({ author_handle: z.string() })\<close>: each issue is paired with the key it is about\<close>
  "getAuthorDetails_schema input = (case input of
      RObj props \<Rightarrow> (case author_handle_schema (map_of props ''author_handle'') of
          Inr h \<Rightarrow> Inr \<lparr>args_author_handle = h\<rparr>
        | Inl e \<Rightarrow> Inl [(''author_handle'', e)])
    | _ \<Rightarrow> Inl [([], invalid_type)])"

definition getTopTweets_schema :: "raw \<Rightarrow> (string \<times> issue) list + TopTweetsArgs" where
  "getTopTweets_schema input = (case input of
      RObj props \<Rightarrow>
        (let h = author_handle_schema (map_of props ''author_handle'');
             i = interval_schema (map_of props ''interval'');
             s = sort_by_schema (map_of props ''sort_by'');
             l = limit_schema (map_of props ''limit'')
         in case (h, i, s, l) of
              (Inr h', Inr i', Inr s', Inr l') \<Rightarrow>
                Inr \<lparr>targs_author_handle = h', interval = i', sort_by = s', limit = l'\<rparr>
            | _ \<Rightarrow> Inl (field_issues ''author_handle'' h @ field_issues ''interval'' i
                       @ field_issues ''sort_by'' s @ field_issues ''limit'' l))
    | _ \<Rightarrow> Inl [([], invalid_type)])"


section \<open>Invocation of a capability\<close>

text \<open>
  The request a handler sends is kept by its endpoint and parameters; the percent-encoding
  of the URL is not modelled. \<open>console.log\<close> and \<open>console.error\<close> have no part in the result.
\<close>

datatype request = AuthorDetailsRequest string | TopTweetsRequest string string string rat

datatype reply = ValidationFailure "(string \<times> issue) list" | Returned string | Raised thrown

definition reply_of :: "thrown + string \<Rightarrow> reply" where
  "reply_of r = (case r of Inl e \<Rightarrow> Raised e | Inr s \<Rightarrow> Returned s)"

definition getAuthorDetails_request :: "AuthorDetailsArgs \<Rightarrow> request" where
  "getAuthorDetails_request args = AuthorDetailsRequest (args_author_handle args)"

definition getTopTweets_request :: "TopTweetsArgs \<Rightarrow> request" where
  "getTopTweets_request args =
     TopTweetsRequest (targs_author_handle args) (interval args) (sort_by args) (limit args)"

definition getAuthorDetails_call ::
  "(request \<Rightarrow> CredBuzzResponse transport) \<Rightarrow> raw \<Rightarrow> reply \<times> request list" where
  \<comment> \<open>Modelled from the spec: the dispatch of the agent host (the SDK, not under src/), which
      validates the raw arguments against the schema of the capability and calls \<open>run\<close> only
      with validated arguments. The second component lists the requests sent to the network.\<close>
  "getAuthorDetails_call network input = (case getAuthorDetails_schema input of
      Inl issues \<Rightarrow> (ValidationFailure issues, [])
    | Inr args \<Rightarrow>
        (reply_of (getAuthorDetails_run args (axios_get (network (getAuthorDetails_request args)))),
         [getAuthorDetails_request args]))"

definition getTopTweets_call ::
  "(request \<Rightarrow> TopTweetsResponse transport) \<Rightarrow> raw \<Rightarrow> reply \<times> request list" where
  \<comment> \<open>Modelled from the spec: the dispatch of the agent host, as for \<open>getAuthorDetails_call\<close>.\<close>
  "getTopTweets_call network input = (case getTopTweets_schema input of
      Inl issues \<Rightarrow> (ValidationFailure issues, [])
    | Inr args \<Rightarrow>
        (reply_of (getTopTweets_run args (axios_get (network (getTopTweets_request args)))),
         [getTopTweets_request args]))"


section \<open>JSON texts\<close>


definition is_digit :: "char \<Rightarrow> bool" where
  "is_digit c = (c \<in> set ''0123456789'')"









section \<open>Reading the rendered output\<close>

definition property :: "string \<Rightarrow> json \<Rightarrow> json option" where
  \<comment> \<open>the value of a property of a rendered object\<close>
  "property key v = (case v of JObj ms \<Rightarrow> map_of ms key | _ \<Rightarrow> None)"


fun split_commas :: "string \<Rightarrow> string list" where
  "split_commas [] = [[]]"
| "split_commas (c # cs) =
     (if c = CHR '','' then [] # split_commas cs
      else (case split_commas cs of [] \<Rightarrow> [[c]] | g # gs \<Rightarrow> (c # g) # gs))"

definition grouped :: "string \<Rightarrow> bool" where
  \<comment> \<open>grouped thousands: between commas, one to three digits and then groups of exactly three\<close>
  "grouped s = (case split_commas s of
      [] \<Rightarrow> False
    | g # gs \<Rightarrow> 1 \<le> length g \<and> length g \<le> 3 \<and> list_all is_digit g
        \<and> list_all (\<lambda>h. length h = 3 \<and> list_all is_digit h) gs)"

text \<open>An author of whom the upstream knows the handle only, and the arguments of two calls.\<close>

definition example_author :: AuthorDetails where
  "example_author = \<lparr>author_handle = ''kaitoai'', name = None, bio = None, url_in_bio = None,
     profile_image_url = None, profile_banner_url = None, followers_count = None,
     followings_count = None, account_created_at = None, crypto_tweets_all = None,
     crypto_tweets_views_all = None, engagement_score = None, followers_impact = None,
     total_symbols_mentioned = None, symbols_mentioned_in_last_24hr = None,
     new_symbols_mentioned_in_last_24hr = None, unique_author_handle_count = None,
     total_mention_count = None, tags = [], mentions_24hr = None, mindshare = None,
     smart_followers_count = None\<rparr>"

definition example_tweet :: Tweet where
  "example_tweet = \<lparr>tweet_id = ''1'', tweet_author_handle = ''alice'', content = ''gm'',
     created_at = ''2025-01-01'', view_count = None, like_count = None, reply_count = None,
     retweet_count = None, quote_count = None, bookmark_count = None,
     symbols_mentioned = Some []\<rparr>"

definition alice_details :: AuthorDetailsArgs where
  "alice_details = \<lparr>args_author_handle = ''alice''\<rparr>"

definition alice_tweets :: TopTweetsArgs where
  "alice_tweets = \<lparr>targs_author_handle = ''alice'', interval = ''30day'',
     sort_by = ''view_count_desc'', limit = 5\<rparr>"


section \<open>Digits and grouping\<close>

lemma digit_is_digit: "d < 10 \<Longrightarrow> is_digit (digit d)"
proof -
  assume d: "d < 10"
  have "list_all (\<lambda>d. is_digit (digit d)) [0..<10]"
    by (simp add: upt_rec digit_def is_digit_def)
  with d show ?thesis by (simp add: list_all_iff)
qed

lemma decimal_digits: "list_all is_digit (decimal n)"
proof (induction n rule: decimal.induct)
  case (1 n)
  show ?case
  proof (cases "n < 10")
    case True
    then show ?thesis by (subst decimal.simps) (simp add: digit_is_digit)
  next
    case False
    with 1 show ?thesis by (subst decimal.simps) (simp add: digit_is_digit)
  qed
qed

lemma decimal_not_empty: "decimal n \<noteq> []"
  by (subst decimal.simps) simp

lemma is_digit_not_comma: "is_digit c \<Longrightarrow> c \<noteq> CHR '',''"
  by (auto simp: is_digit_def)

lemma split_commas_not_empty: "split_commas s \<noteq> []"
  by (induction s) (auto split: list.splits)

lemma split_commas_digits: "list_all is_digit s \<Longrightarrow> split_commas s = [s]"
  by (induction s) (auto dest: is_digit_not_comma)

lemma split_commas_append:
  "list_all is_digit ys \<Longrightarrow> split_commas (xs @ CHR '','' # ys) = split_commas xs @ [ys]"
proof (induction xs)
  case Nil
  then show ?case by (simp add: split_commas_digits)
next
  case (Cons x xs)
  then show ?case
    using split_commas_not_empty[of xs] by (cases "split_commas xs") auto
qed

lemma grouped_group3:
  "ds \<noteq> [] \<Longrightarrow> list_all is_digit ds \<Longrightarrow> grouped (group3 ds)"
proof (induction ds rule: group3.induct)
  case (1 ds)
  show ?case
  proof (cases "length ds \<le> 3")
    case True
    have "split_commas (group3 ds) = [ds]"
      using True 1(3) by (subst group3.simps) (simp add: split_commas_digits)
    moreover have "1 \<le> length ds" using 1(2) by (cases ds) simp_all
    ultimately show ?thesis using True 1(3) by (simp add: grouped_def)
  next
    case False
    let ?front = "take (length ds - 3) ds" and ?last3 = "drop (length ds - 3) ds"
    have front: "?front \<noteq> []" "list_all is_digit ?front"
      using False 1(3) by (auto simp: list_all_iff dest: in_set_takeD)
    have last3: "length ?last3 = 3" "list_all is_digit ?last3"
      using False 1(3) by (auto simp: list_all_iff dest: in_set_dropD)
    from 1(1)[OF False front] have "grouped (group3 ?front)" .
    then obtain g gs where *: "split_commas (group3 ?front) = g # gs"
      "1 \<le> length g" "length g \<le> 3" "list_all is_digit g"
      "list_all (\<lambda>h. length h = 3 \<and> list_all is_digit h) gs"
      by (auto simp: grouped_def split: list.splits)
    have "split_commas (group3 ds) = g # gs @ [?last3]"
      using False * last3 by (subst group3.simps) (simp add: split_commas_append)
    with * last3 show ?thesis by (simp add: grouped_def)
  qed
qed

lemma group3_filter:
  "filter (\<lambda>c. c \<noteq> CHR '','') (group3 ds) = filter (\<lambda>c. c \<noteq> CHR '','') ds"
proof (induction ds rule: group3.induct)
  case (1 ds)
  show ?case
  proof (cases "length ds \<le> 3")
    case True
    then show ?thesis by (subst group3.simps) simp
  next
    case False
    have "filter (\<lambda>c. c \<noteq> CHR '','') (group3 ds)
        = filter (\<lambda>c. c \<noteq> CHR '','') (take (length ds - 3) ds) @ filter (\<lambda>c. c \<noteq> CHR '','') (drop (length ds - 3) ds)"
      using False 1 by (subst group3.simps) simp
    also have "\<dots> = filter (\<lambda>c. c \<noteq> CHR '','') ds"
      by (metis append_take_drop_id filter_append)
    finally show ?thesis .
  qed
qed

lemma decimal_filter: "filter (\<lambda>c. c \<noteq> CHR '','') (decimal n) = decimal n"
  using decimal_digits[of n] by (auto simp: list_all_iff filter_id_conv dest: is_digit_not_comma)

lemma toLocaleString_degroup:
  "filter (\<lambda>c. c \<noteq> CHR '','') (toLocaleString n) = Number_toString n"
  by (simp add: toLocaleString_def Number_toString_def group3_filter decimal_filter)

lemma group3_not_empty: "ds \<noteq> [] \<Longrightarrow> group3 ds \<noteq> []"
  by (subst group3.simps) simp

lemma set_group3: "set (group3 ds) \<subseteq> insert (CHR '','') (set ds)"
proof (induction ds rule: group3.induct)
  case (1 ds)
  show ?case
  proof (cases "length ds \<le> 3")
    case True
    then show ?thesis by (subst group3.simps) auto
  next
    case False
    with 1 show ?thesis
      by (subst group3.simps) (auto dest: in_set_takeD in_set_dropD)
  qed
qed

lemma set_group3_decimal: "set (group3 (decimal m)) \<subseteq> insert (CHR '','') (Collect is_digit)"
  using set_group3[of "decimal m"] decimal_digits[of m] by (auto simp: list_all_iff)

lemma set_toLocaleString:
  "set (toLocaleString n) \<subseteq> insert (CHR ''-'') (insert (CHR '','') (Collect is_digit))"
proof (cases "n < 0")
  case True
  then show ?thesis using set_group3_decimal[of "nat (- n)"]
    by (simp add: toLocaleString_def subset_insertI2)
next
  case False
  then show ?thesis using set_group3_decimal[of "nat n"]
    by (simp add: toLocaleString_def subset_insertI2)
qed

lemma toLocaleString_not_sentinel: "toLocaleString n \<noteq> ''N/A''"
proof
  assume a: "toLocaleString n = ''N/A''"
  have "CHR ''N'' \<in> set (toLocaleString n)" by (simp add: a)
  with set_toLocaleString[of n]
  have "CHR ''N'' \<in> insert (CHR ''-'') (insert (CHR '','') (Collect is_digit))" by blast
  then show False by (simp add: is_digit_def)
qed

lemma toLocaleString_zero: "toLocaleString 0 = ''0''"
  by (simp add: toLocaleString_def decimal.simps group3.simps digit_def)


section \<open>The serializer writes JSON\<close>




















section \<open>Schema lemmas\<close>

lemma limit_schema_number:
  "limit_schema (Some (RNum x)) = (if x < 1 then Inl too_small else if 50 < x then Inl too_big else Inr x)"
  by (simp add: limit_schema_def z_default_def z_max_def z_min_def z_number_def)

lemma limit_schema_absent: "limit_schema None = Inr 5"
  by (simp add: limit_schema_def z_default_def z_max_def z_min_def z_number_def)

lemma limit_schema_other:
  "(\<forall>x. v \<noteq> RNum x) \<Longrightarrow> limit_schema (Some v) = Inl invalid_type"
  by (cases v) (simp_all add: limit_schema_def z_default_def z_max_def z_min_def z_number_def)

lemma getTopTweets_schema_limit_issue:
  "limit_schema (map_of props ''limit'') = Inl e \<Longrightarrow>
     \<exists>issues. getTopTweets_schema (RObj props) = Inl issues \<and> (''limit'', e) \<in> set issues"
  by (auto simp: getTopTweets_schema_def Let_def field_issues_def split: sum.splits)

lemma getTopTweets_schema_limit_accepted:
  "getTopTweets_schema (RObj props) = Inr args \<Longrightarrow> limit_schema (map_of props ''limit'') = Inr (limit args)"
  by (auto simp: getTopTweets_schema_def Let_def field_issues_def split: sum.splits)


section \<open>Handlers: shared facts\<close>

lemma getAuthorDetails_run_rejected:
  "getAuthorDetails_run args (Rejected e) = getAuthorDetails_catch e"
  by (simp add: getAuthorDetails_run_def getAuthorDetails_try_def)

lemma getTopTweets_run_rejected:
  "getTopTweets_run args (Rejected e) = getTopTweets_catch e"
  by (simp add: getTopTweets_run_def getTopTweets_try_def)

lemma getAuthorDetails_catch_no_response:
  "getAuthorDetails_catch (AxiosError None msg) = Inr ''API error: undefined - undefined''"
  by (simp add: getAuthorDetails_catch_def template_number_def template_string_def)

lemma getTopTweets_catch_no_response:
  "getTopTweets_catch (AxiosError None msg) = Inr ''API error: undefined - undefined''"
  by (simp add: getTopTweets_catch_def template_number_def template_string_def)

lemma getAuthorDetails_run_result:
  "getAuthorDetails_run args (Resolved (Some \<lparr>result = Some a, message = m\<rparr>))
     = Inr (JSON_stringify (formattedDetails a))"
  by (simp add: getAuthorDetails_run_def getAuthorDetails_try_def)


lemma toLocaleString_not_empty: "toLocaleString n \<noteq> []"
  by (simp add: toLocaleString_def group3_not_empty decimal_not_empty)

lemma or_string_toLocaleString:
  "or_string (opt_toLocaleString (Some n)) ''N/A'' = toLocaleString n"
  by (simp add: or_string_def opt_toLocaleString_def toLocaleString_not_empty)

lemma toLocaleString_grouped: "0 \<le> n \<Longrightarrow> grouped (toLocaleString n)"
  by (simp add: toLocaleString_def grouped_group3 decimal_not_empty decimal_digits)

lemma toLocaleString_negative:
  "n < 0 \<Longrightarrow> \<exists>g. toLocaleString n = CHR ''-'' # g \<and> grouped g"
  by (simp add: toLocaleString_def grouped_group3 decimal_not_empty decimal_digits)


section \<open>The claims\<close>

text \<open>
  C1. When the transport fails without any HTTP response, axios rejects with an axios
  error that has no \<open>response\<close>. The \<open>catch\<close> block tests \<open>axios.isAxiosError\<close> first and
  reads \<open>error.response?.status\<close>, so both capabilities return
  \<open>API error: undefined - undefined\<close>: they do not raise, but the branch that builds
  \<open>Error fetching ...\<close> is reached only by errors that are not axios errors.
\<close>

theorem transport_failure_reply:
  "getAuthorDetails_run a (axios_get (NoResponse msg)) = Inr ''API error: undefined - undefined''
 \<and> getTopTweets_run t (axios_get (NoResponse msg)) = Inr ''API error: undefined - undefined''"
  by (simp add: axios_get_def getAuthorDetails_run_rejected getTopTweets_run_rejected
      getAuthorDetails_catch_no_response getTopTweets_catch_no_response)

text \<open>
  C2, as the code has it. The five counters read through \<open>?.toLocaleString()\<close> (followers,
  following, cryptoTweets, cryptoTweetViews, smartFollowers) are rendered, when present, as
  strings with grouped thousands: the digits of the number with a comma before every group
  of three; a present zero is \<open>0\<close> there and no present value is the sentinel. The seven
  other numeric fields are passed through as JSON numbers when present and not zero.
\<close>

theorem numeric_field_rendering:
  "property ''followers'' (formattedDetails (a\<lparr>followers_count := Some n\<rparr>))
     = Some (JStr (toLocaleString n))
 \<and> property ''following'' (formattedDetails (a\<lparr>followings_count := Some n\<rparr>))
     = Some (JStr (toLocaleString n))
 \<and> property ''cryptoTweets'' (formattedDetails (a\<lparr>crypto_tweets_all := Some n\<rparr>))
     = Some (JStr (toLocaleString n))
 \<and> property ''cryptoTweetViews'' (formattedDetails (a\<lparr>crypto_tweets_views_all := Some n\<rparr>))
     = Some (JStr (toLocaleString n))
 \<and> property ''smartFollowers'' (formattedDetails (a\<lparr>smart_followers_count := Some n\<rparr>))
     = Some (JStr (toLocaleString n))
 \<and> toLocaleString n \<noteq> ''N/A''
 \<and> toLocaleString 0 = ''0''
 \<and> filter (\<lambda>c. c \<noteq> CHR '','') (toLocaleString n) = Number_toString n
 \<and> (0 \<le> n \<longrightarrow> grouped (toLocaleString n))
 \<and> (n < 0 \<longrightarrow> (\<exists>g. toLocaleString n = CHR ''-'' # g \<and> grouped g))
 \<and> (n \<noteq> 0 \<longrightarrow>
      property ''engagementScore'' (formattedDetails (a\<lparr>engagement_score := Some n\<rparr>))
        = Some (JNum n)
    \<and> property ''followersImpact'' (formattedDetails (a\<lparr>followers_impact := Some n\<rparr>))
        = Some (JNum n)
    \<and> property ''symbolsMentioned'' (formattedDetails (a\<lparr>total_symbols_mentioned := Some n\<rparr>))
        = Some (JNum n)
    \<and> property ''symbolsLast24h''
          (formattedDetails (a\<lparr>symbols_mentioned_in_last_24hr := Some n\<rparr>)) = Some (JNum n)
    \<and> property ''newSymbolsLast24h''
          (formattedDetails (a\<lparr>new_symbols_mentioned_in_last_24hr := Some n\<rparr>)) = Some (JNum n)
    \<and> property ''mentions24h'' (formattedDetails (a\<lparr>mentions_24hr := Some n\<rparr>)) = Some (JNum n)
    \<and> property ''mindshare'' (formattedDetails (a\<lparr>mindshare := Some n\<rparr>)) = Some (JNum n))"
proof -
  have five: "property ''followers'' (formattedDetails (a\<lparr>followers_count := Some n\<rparr>))
       = Some (JStr (toLocaleString n))
     \<and> property ''following'' (formattedDetails (a\<lparr>followings_count := Some n\<rparr>))
       = Some (JStr (toLocaleString n))
     \<and> property ''cryptoTweets'' (formattedDetails (a\<lparr>crypto_tweets_all := Some n\<rparr>))
       = Some (JStr (toLocaleString n))
     \<and> property ''cryptoTweetViews'' (formattedDetails (a\<lparr>crypto_tweets_views_all := Some n\<rparr>))
       = Some (JStr (toLocaleString n))
     \<and> property ''smartFollowers'' (formattedDetails (a\<lparr>smart_followers_count := Some n\<rparr>))
       = Some (JStr (toLocaleString n))"
    by (simp add: property_def formattedDetails_def or_string_toLocaleString)
  have seven: "property ''engagementScore'' (formattedDetails (a\<lparr>engagement_score := Some n\<rparr>))
        = Some (JNum n)
    \<and> property ''followersImpact'' (formattedDetails (a\<lparr>followers_impact := Some n\<rparr>))
        = Some (JNum n)
    \<and> property ''symbolsMentioned'' (formattedDetails (a\<lparr>total_symbols_mentioned := Some n\<rparr>))
        = Some (JNum n)
    \<and> property ''symbolsLast24h''
          (formattedDetails (a\<lparr>symbols_mentioned_in_last_24hr := Some n\<rparr>)) = Some (JNum n)
    \<and> property ''newSymbolsLast24h''
          (formattedDetails (a\<lparr>new_symbols_mentioned_in_last_24hr := Some n\<rparr>)) = Some (JNum n)
    \<and> property ''mentions24h'' (formattedDetails (a\<lparr>mentions_24hr := Some n\<rparr>)) = Some (JNum n)
    \<and> property ''mindshare'' (formattedDetails (a\<lparr>mindshare := Some n\<rparr>)) = Some (JNum n)"
    if "n \<noteq> 0"
    using that by (simp add: property_def formattedDetails_def or_number_def)
  from five seven toLocaleString_not_sentinel toLocaleString_zero toLocaleString_degroup
    toLocaleString_grouped toLocaleString_negative
  show ?thesis by blast
qed

theorem numeric_field_rendering_witness:
  "(0 :: int) \<le> 1234567 \<and> (1234567 :: int) \<noteq> 0
 \<and> property ''followers'' (formattedDetails (example_author\<lparr>followers_count := Some 1234567\<rparr>))
     = Some (JStr ''1,234,567'')
 \<and> grouped ''1,234,567''
 \<and> property ''mindshare'' (formattedDetails (example_author\<lparr>mindshare := Some 1234567\<rparr>))
     = Some (JNum 1234567)"
proof -
  have "toLocaleString 1234567 = ''1,234,567''"
    by (simp add: toLocaleString_def decimal.simps group3.simps digit_def)
  with numeric_field_rendering [where n = 1234567 and a = example_author]
  show ?thesis by simp
qed

theorem numeric_field_rendering_counterexample:
  "property ''symbolsMentioned''
     (formattedDetails (example_author\<lparr>total_symbols_mentioned := Some 1234\<rparr>)) = Some (JNum 1234)
 \<and> stringify 1 (JNum 1234) = ''1234''
 \<and> toLocaleString 1234 = ''1,234''
 \<and> property ''engagementScore'' (formattedDetails (example_author\<lparr>engagement_score := Some 0\<rparr>))
     = Some (JStr ''N/A'')"
  by (simp add: property_def formattedDetails_def or_number_def Number_toString_def
      toLocaleString_def decimal.simps group3.simps digit_def)

text \<open>
  C3, as the code has it. \<open>limit\<close> is validated as a number in the inclusive range
  \<open>[1, 50]\<close>: a number below 1 or above 50 is an issue of the field (nothing is clamped:
  an accepted value is returned as it came), a value that is not a number is an issue,
  an absent \<open>limit\<close> is 5, and every number of the range passes, whole or not.
\<close>

theorem limit_validation:
  "limit_schema None = Inr 5
 \<and> limit_schema (Some (RNum x))
     = (if x < 1 then Inl too_small else if 50 < x then Inl too_big else Inr x)
 \<and> ((\<forall>y. v \<noteq> RNum y) \<longrightarrow> limit_schema (Some v) = Inl invalid_type)
 \<and> (limit_schema (map_of props ''limit'') = Inl e \<longrightarrow>
      (\<exists>issues. getTopTweets_schema (RObj props) = Inl issues \<and> (''limit'', e) \<in> set issues))
 \<and> (getTopTweets_schema (RObj props) = Inr args \<longrightarrow>
      limit_schema (map_of props ''limit'') = Inr (limit args)
    \<and> 1 \<le> limit args \<and> limit args \<le> 50)"
proof -
  have "1 \<le> limit args \<and> limit args \<le> 50"
    if "limit_schema (map_of props ''limit'') = Inr (limit args)"
  proof (cases "map_of props ''limit''")
    case None
    with that show ?thesis by (simp add: limit_schema_absent)
  next
    case (Some w)
    show ?thesis
    proof (cases "\<exists>y. w = RNum y")
      case True
      with that Some show ?thesis by (auto simp: limit_schema_number split: if_splits)
    next
      case False
      with that Some show ?thesis by (simp add: limit_schema_other)
    qed
  qed
  then show ?thesis
    using limit_schema_absent limit_schema_number limit_schema_other
      getTopTweets_schema_limit_issue getTopTweets_schema_limit_accepted
    by blast
qed

theorem limit_validation_witness:
  "limit_schema (Some (RNum 0)) = Inl too_small
 \<and> limit_schema (Some (RNum 51)) = Inl too_big
 \<and> limit_schema (Some (RNum 1)) = Inr 1
 \<and> limit_schema (Some (RNum 50)) = Inr 50
 \<and> limit_schema (Some (RStr ''ten'')) = Inl invalid_type
 \<and> (\<exists>issues. getTopTweets_schema (RObj [(''author_handle'', RStr ''alice''), (''limit'', RNum 0)])
       = Inl issues \<and> (''limit'', too_small) \<in> set issues)"
  using limit_validation [where x = 0] limit_validation [where x = 51]
    limit_validation [where x = 1] limit_validation [where x = 50]
    limit_validation [where v = "RStr ''ten''"]
    limit_validation [where props = "[(''author_handle'', RStr ''alice''), (''limit'', RNum 0)]"
      and e = too_small]
  by (simp add: limit_schema_number)

theorem limit_validation_counterexample:
  "getTopTweets_schema (RObj [(''author_handle'', RStr ''alice''), (''limit'', RNum (5 / 2))])
     = Inr \<lparr>targs_author_handle = ''alice'', interval = ''7day'', sort_by = ''view_count_desc'',
            limit = 5 / 2\<rparr>
 \<and> (5 / 2 :: rat) \<notin> \<int>"
proof -
  have "(5 / 2 :: rat) \<notin> \<int>"
  proof
    assume "(5 / 2 :: rat) \<in> \<int>"
    then obtain k :: int where "(5 / 2 :: rat) = of_int k" by (auto elim: Ints_cases)
    then have "(5 :: rat) = of_int (2 * k)" by simp
    then have "(5 :: int) = 2 * k" using of_int_eq_iff[of 5 "2 * k", where ?'a = rat] by simp
    then show False by presburger
  qed
  then show ?thesis
    by (simp add: getTopTweets_schema_def Let_def author_handle_schema_def interval_schema_def
      sort_by_schema_def limit_schema_number z_default_def z_enum_def z_string_def)
qed

text \<open>
  C4, as the code has it. \<open>author_handle\<close> is validated as a required string on both
  capabilities: when it is absent, or is not a string, the call is a validation failure
  that names the field, and no request is sent. Every string passes, the empty one
  included, and the request is then sent with it.
\<close>

theorem author_handle_validation:
  "(map_of props ''author_handle'' = None
      \<or> (\<exists>v. map_of props ''author_handle'' = Some v \<and> (\<forall>s. v \<noteq> RStr s)) \<longrightarrow>
      getAuthorDetails_call net (RObj props)
        = (ValidationFailure [(''author_handle'', invalid_type)], [])
    \<and> (\<exists>issues. getTopTweets_call net' (RObj props) = (ValidationFailure issues, [])
          \<and> (''author_handle'', invalid_type) \<in> set issues))
 \<and> author_handle_schema (Some (RStr h)) = Inr h
 \<and> (map_of props ''author_handle'' = Some (RStr h) \<longrightarrow>
      getAuthorDetails_schema (RObj props) = Inr \<lparr>args_author_handle = h\<rparr>
    \<and> snd (getAuthorDetails_call net (RObj props)) = [AuthorDetailsRequest h])"
proof -
  have bad: "author_handle_schema (map_of props ''author_handle'') = Inl invalid_type"
    if "map_of props ''author_handle'' = None
      \<or> (\<exists>v. map_of props ''author_handle'' = Some v \<and> (\<forall>s. v \<noteq> RStr s))"
    using that by (auto simp: author_handle_schema_def z_string_def split: raw.splits)
  have details: "getAuthorDetails_call net (RObj props)
      = (ValidationFailure [(''author_handle'', invalid_type)], [])"
    if "author_handle_schema (map_of props ''author_handle'') = Inl invalid_type"
    using that by (simp add: getAuthorDetails_call_def getAuthorDetails_schema_def)
  have tweets: "\<exists>issues. getTopTweets_call net' (RObj props) = (ValidationFailure issues, [])
          \<and> (''author_handle'', invalid_type) \<in> set issues"
    if "author_handle_schema (map_of props ''author_handle'') = Inl invalid_type"
    using that
    by (simp add: getTopTweets_call_def getTopTweets_schema_def Let_def field_issues_def)
  have any_string: "author_handle_schema (Some (RStr h)) = Inr h"
    by (simp add: author_handle_schema_def z_string_def)
  have good: "getAuthorDetails_schema (RObj props) = Inr \<lparr>args_author_handle = h\<rparr>
    \<and> snd (getAuthorDetails_call net (RObj props)) = [AuthorDetailsRequest h]"
    if "map_of props ''author_handle'' = Some (RStr h)"
    using that any_string
    by (simp add: getAuthorDetails_call_def getAuthorDetails_schema_def
        getAuthorDetails_request_def)
  from bad details tweets any_string good show ?thesis by blast
qed

theorem author_handle_validation_witness:
  "getAuthorDetails_call (\<lambda>r. HttpResponse 404 ''Not Found'' None) (RObj [])
     = (ValidationFailure [(''author_handle'', invalid_type)], [])
 \<and> getAuthorDetails_call (\<lambda>r. HttpResponse 404 ''Not Found'' None)
       (RObj [(''author_handle'', RNum 7)])
     = (ValidationFailure [(''author_handle'', invalid_type)], [])
 \<and> (\<exists>issues. getTopTweets_call (\<lambda>r. HttpResponse 404 ''Not Found'' None)
           (RObj [(''limit'', RNum 5)])
         = (ValidationFailure issues, [])
       \<and> (''author_handle'', invalid_type) \<in> set issues)
 \<and> snd (getAuthorDetails_call (\<lambda>r. HttpResponse 404 ''Not Found'' None)
       (RObj [(''author_handle'', RStr ''alice'')])) = [AuthorDetailsRequest ''alice'']"
  using author_handle_validation [where props = "[]"
      and net = "\<lambda>r. HttpResponse 404 ''Not Found'' None"]
    author_handle_validation [where props = "[(''author_handle'', RNum 7)]"
      and net = "\<lambda>r. HttpResponse 404 ''Not Found'' None"]
    author_handle_validation [where props = "[(''limit'', RNum 5)]"
      and net' = "\<lambda>r. HttpResponse 404 ''Not Found'' None"]
    author_handle_validation [where props = "[(''author_handle'', RStr ''alice'')]"
      and h = "''alice''" and net = "\<lambda>r. HttpResponse 404 ''Not Found'' None"]
  by simp

theorem author_handle_validation_counterexample:
  "getAuthorDetails_call (\<lambda>r. HttpResponse 404 ''Not Found'' None)
       (RObj [(''author_handle'', RStr [])])
     = (Returned ''Author not found. Please check the handle and try again.'',
        [AuthorDetailsRequest []])
 \<and> getTopTweets_call (\<lambda>r. HttpResponse 404 ''Not Found'' None)
       (RObj [(''author_handle'', RStr [])])
     = (Returned
          ''Author not found or no tweets available. Please check the handle and try again.'',
        [TopTweetsRequest [] ''7day'' ''view_count_desc'' 5])"
  by (simp add: getAuthorDetails_call_def getAuthorDetails_schema_def author_handle_schema_def
      z_string_def getAuthorDetails_request_def reply_of_def axios_get_def
      getAuthorDetails_run_rejected getTopTweets_run_rejected
      getAuthorDetails_catch_def getTopTweets_catch_def
      getTopTweets_call_def getTopTweets_schema_def Let_def interval_schema_def sort_by_schema_def
      limit_schema_absent z_default_def z_enum_def getTopTweets_request_def)

text \<open>
  C5. Whatever the one \<open>axios.get\<close> of an invocation does (resolve with any body, or throw
  any value), \<open>run\<close> of either capability returns a string: no exception leaves it, and a
  call of a capability never ends in a raised error.
\<close>

theorem run_returns_string:
  "(\<exists>s. getAuthorDetails_run a r = Inr s) \<and> (\<exists>s. getTopTweets_run t r' = Inr s)
 \<and> (\<forall>e. fst (getAuthorDetails_call net input) \<noteq> Raised e)
 \<and> (\<forall>e. fst (getTopTweets_call net' input') \<noteq> Raised e)"
proof -
  have details: "\<exists>s. getAuthorDetails_run a r = Inr s" for a r
    by (auto simp: getAuthorDetails_run_def getAuthorDetails_try_def getAuthorDetails_catch_def
        split: axios_outcome.splits option.splits thrown.splits sum.splits)
  have tweets: "\<exists>s. getTopTweets_run t r' = Inr s" for t r'
    by (auto simp: getTopTweets_run_def getTopTweets_try_def getTopTweets_catch_def
        split: axios_outcome.splits option.splits thrown.splits sum.splits)
  have "fst (getAuthorDetails_call net input) \<noteq> Raised e" for e
  proof (cases "getAuthorDetails_schema input")
    case (Inl issues)
    then show ?thesis by (simp add: getAuthorDetails_call_def)
  next
    case (Inr args)
    obtain s where "getAuthorDetails_run args
        (axios_get (net (getAuthorDetails_request args))) = Inr s"
      using details by blast
    with Inr show ?thesis by (simp add: getAuthorDetails_call_def reply_of_def)
  qed
  moreover have "fst (getTopTweets_call net' input') \<noteq> Raised e" for e
  proof (cases "getTopTweets_schema input'")
    case (Inl issues)
    then show ?thesis by (simp add: getTopTweets_call_def)
  next
    case (Inr args)
    obtain s where "getTopTweets_run args
        (axios_get (net' (getTopTweets_request args))) = Inr s"
      using tweets by blast
    with Inr show ?thesis by (simp add: getTopTweets_call_def reply_of_def)
  qed
  ultimately show ?thesis using details tweets by blast
qed



text \<open>
  C7. An empty tag list of a profile is rendered as the list with the one string \<open>None\<close>, a
  tag list that is not empty as it is, in its order; the symbols of a post are rendered as
  they are, the empty list as the empty list (printed \<open>[]\<close>), and absent symbols as the
  empty list too.
\<close>

theorem empty_collection_rendering:
  "property ''tags'' (formattedDetails (a\<lparr>tags := []\<rparr>)) = Some (JArr [JStr ''None''])
 \<and> (xs \<noteq> [] \<longrightarrow>
      property ''tags'' (formattedDetails (a\<lparr>tags := xs\<rparr>)) = Some (JArr (map JStr xs)))
 \<and> property ''symbolsMentioned'' (formatTweet i (tw\<lparr>symbols_mentioned := Some []\<rparr>))
     = Some (JArr [])
 \<and> property ''symbolsMentioned'' (formatTweet i (tw\<lparr>symbols_mentioned := Some ys\<rparr>))
     = Some (JArr (map JStr ys))
 \<and> property ''symbolsMentioned'' (formatTweet i (tw\<lparr>symbols_mentioned := None\<rparr>))
     = Some (JArr [])
 \<and> stringify k (JArr []) = ''[]''"
  by (simp add: property_def formattedDetails_def formatTweet_def or_list_def)

theorem empty_collection_rendering_witness:
  "[''defi'', ''nft''] \<noteq> []
 \<and> property ''tags'' (formattedDetails (example_author\<lparr>tags := [''defi'', ''nft'']\<rparr>))
     = Some (JArr [JStr ''defi'', JStr ''nft''])
 \<and> property ''tags'' (formattedDetails example_author) = Some (JArr [JStr ''None''])
 \<and> property ''symbolsMentioned'' (formatTweet 0 example_tweet) = Some (JArr [])"
  using empty_collection_rendering [where xs = "[''defi'', ''nft'']" and a = example_author
      and tw = example_tweet and i = 0]
  by (simp add: example_author_def example_tweet_def)

text \<open>
  C8. An upstream 404 yields the fixed not-found message of the capability, an upstream 429
  the rate-limit message on both capabilities, and every other status outside
  \<open>[200, 300)\<close> the string \<open>API error: <status> - <status text>\<close>.
\<close>

theorem http_status_translation:
  "getAuthorDetails_run a (axios_get (HttpResponse 404 phrase body))
     = Inr ''Author not found. Please check the handle and try again.''
 \<and> getTopTweets_run t (axios_get (HttpResponse 404 phrase body'))
     = Inr ''Author not found or no tweets available. Please check the handle and try again.''
 \<and> getAuthorDetails_run a (axios_get (HttpResponse 429 phrase body))
     = Inr ''Rate limit exceeded. Please try again later.''
 \<and> getTopTweets_run t (axios_get (HttpResponse 429 phrase body'))
     = Inr ''Rate limit exceeded. Please try again later.''
 \<and> (\<not> (200 \<le> st \<and> st < 300) \<and> st \<noteq> 404 \<and> st \<noteq> 429 \<longrightarrow>
      getAuthorDetails_run a (axios_get (HttpResponse st phrase body))
        = Inr (''API error: '' @ decimal st @ '' - '' @ phrase)
    \<and> getTopTweets_run t (axios_get (HttpResponse st phrase body'))
        = Inr (''API error: '' @ decimal st @ '' - '' @ phrase))"
  by (simp add: axios_get_def getAuthorDetails_run_rejected getTopTweets_run_rejected
      getAuthorDetails_catch_def getTopTweets_catch_def template_number_def template_string_def)

theorem http_status_translation_witness:
  "\<not> (200 \<le> (500::nat) \<and> (500::nat) < 300) \<and> (500::nat) \<noteq> 404 \<and> (500::nat) \<noteq> 429
 \<and> getAuthorDetails_run alice_details
       (axios_get (HttpResponse 500 ''Internal Server Error'' None))
     = Inr ''API error: 500 - Internal Server Error''
 \<and> getTopTweets_run alice_tweets
       (axios_get (HttpResponse 500 ''Internal Server Error'' None))
     = Inr ''API error: 500 - Internal Server Error''"
  using http_status_translation [where st = 500 and phrase = "''Internal Server Error''"
      and a = alice_details and body = None and body' = None and t = alice_tweets]
  by (simp add: decimal.simps digit_def)

text \<open>
  C9. On a response with a status in \<open>[200, 300)\<close>: \<open>getAuthorDetails\<close> returns
  \<open>No author details found for the provided handle.\<close> when the body is absent or has no
  result; \<open>getTopTweets\<close> returns \<open>No response received from the API.\<close> when the body is
  absent, and the message \<open>No tweets found for author "<handle>" in the specified time period.\<close>
  with the handle of the call when the result is absent or the empty list.
\<close>

theorem empty_result_handling:
  "200 \<le> st \<and> st < 300 \<longrightarrow>
     getAuthorDetails_run a (axios_get (HttpResponse st phrase None))
       = Inr ''No author details found for the provided handle.''
   \<and> getAuthorDetails_run a
         (axios_get (HttpResponse st phrase (Some \<lparr>result = None, message = m\<rparr>)))
       = Inr ''No author details found for the provided handle.''
   \<and> getTopTweets_run t (axios_get (HttpResponse st phrase None))
       = Inr ''No response received from the API.''
   \<and> getTopTweets_run t
         (axios_get (HttpResponse st phrase (Some \<lparr>tweets_result = None, tweets_message = m\<rparr>)))
       = Inr (''No tweets found for author '' @ [CHR 0x22] @ targs_author_handle t @ [CHR 0x22]
              @ '' in the specified time period.'')
   \<and> getTopTweets_run t
         (axios_get (HttpResponse st phrase (Some \<lparr>tweets_result = Some [], tweets_message = m\<rparr>)))
       = Inr (''No tweets found for author '' @ [CHR 0x22] @ targs_author_handle t @ [CHR 0x22]
              @ '' in the specified time period.'')"
  by (simp add: axios_get_def getAuthorDetails_run_def getAuthorDetails_try_def
      getTopTweets_run_def getTopTweets_try_def)

theorem empty_result_handling_witness:
  \<open>200 \<le> (200::nat) \<and> (200::nat) < 300
 \<and> getAuthorDetails_run alice_details
       (axios_get (HttpResponse 200 ''OK'' (Some \<lparr>result = None, message = ''none''\<rparr>)))
     = Inr ''No author details found for the provided handle.''
 \<and> getTopTweets_run alice_tweets (axios_get (HttpResponse 200 ''OK'' None))
     = Inr ''No response received from the API.''
 \<and> getTopTweets_run alice_tweets
       (axios_get (HttpResponse 200 ''OK'' (Some \<lparr>tweets_result = Some [], tweets_message = ''none''\<rparr>)))
     = Inr ''No tweets found for author "alice" in the specified time period.''\<close>
  using empty_result_handling [where st = 200 and phrase = "''OK''" and m = "''none''"
      and a = alice_details and t = alice_tweets]
  by (simp add: alice_tweets_def)

text \<open>
  C10. A string field of the profile (name, bio, url_in_bio, account_created_at) that is
  present and empty is rendered as the sentinel \<open>N/A\<close>, and the whole rendered object, hence
  the returned text, is the one of the profile in which that field is absent.
\<close>

theorem empty_string_renders_as_sentinel:
  "property ''name'' (formattedDetails (a\<lparr>name := Some []\<rparr>)) = Some (JStr ''N/A'')
 \<and> property ''bio'' (formattedDetails (a\<lparr>bio := Some []\<rparr>)) = Some (JStr ''N/A'')
 \<and> property ''profileUrl'' (formattedDetails (a\<lparr>url_in_bio := Some []\<rparr>)) = Some (JStr ''N/A'')
 \<and> property ''accountCreated'' (formattedDetails (a\<lparr>account_created_at := Some []\<rparr>))
     = Some (JStr ''N/A'')
 \<and> formattedDetails (a\<lparr>name := Some []\<rparr>) = formattedDetails (a\<lparr>name := None\<rparr>)
 \<and> formattedDetails (a\<lparr>bio := Some []\<rparr>) = formattedDetails (a\<lparr>bio := None\<rparr>)
 \<and> formattedDetails (a\<lparr>url_in_bio := Some []\<rparr>) = formattedDetails (a\<lparr>url_in_bio := None\<rparr>)
 \<and> formattedDetails (a\<lparr>account_created_at := Some []\<rparr>)
     = formattedDetails (a\<lparr>account_created_at := None\<rparr>)
 \<and> getAuthorDetails_run args (Resolved (Some \<lparr>result = Some (a\<lparr>name := Some []\<rparr>), message = m\<rparr>))
     = getAuthorDetails_run args (Resolved (Some \<lparr>result = Some (a\<lparr>name := None\<rparr>), message = m\<rparr>))
 \<and> getAuthorDetails_run args (Resolved (Some \<lparr>result = Some (a\<lparr>bio := Some []\<rparr>), message = m\<rparr>))
     = getAuthorDetails_run args (Resolved (Some \<lparr>result = Some (a\<lparr>bio := None\<rparr>), message = m\<rparr>))
 \<and> getAuthorDetails_run args
       (Resolved (Some \<lparr>result = Some (a\<lparr>url_in_bio := Some []\<rparr>), message = m\<rparr>))
     = getAuthorDetails_run args
       (Resolved (Some \<lparr>result = Some (a\<lparr>url_in_bio := None\<rparr>), message = m\<rparr>))
 \<and> getAuthorDetails_run args
       (Resolved (Some \<lparr>result = Some (a\<lparr>account_created_at := Some []\<rparr>), message = m\<rparr>))
     = getAuthorDetails_run args
       (Resolved (Some \<lparr>result = Some (a\<lparr>account_created_at := None\<rparr>), message = m\<rparr>))"
  by (simp add: property_def formattedDetails_def or_string_def getAuthorDetails_run_result)

end
